theory Spec2Isabelle
  imports Complex_Main
begin

section \<open>Numbers of the strategy\<close>

text \<open>
  \<^verbatim>\<open>strategy2.py\<close> computes with Python floats (the indicator readings, the spread)
  and with \<^verbatim>\<open>Decimal\<close> (prices, balances, amounts). A number of either kind is
  modelled by the real number it is, together with the not-a-number value that pandas
  puts in an indicator column while the candle history is too short. Infinite floats are
  left out: no reading of the frame is one. Reference price and balances, read from the
  connector, are finite decimals.

  In the spread and the prices, literals stand for the decimal numbers written and the
  arithmetic is exact: binary rounding and the 28-digit rounding of the product move the
  last digits of a price and decide no branch. In the sizing the program compares a
  \<^verbatim>\<open>Decimal\<close> with float literals and turns a float into the amount, so there the
  literals are the doubles they denote and the \<^verbatim>\<open>Decimal\<close> operations round as the
  default context does (28 significant digits, ties to even); the exponent limits of
  the context, beyond \<open>10 ^ 999999\<close>, are left out.
\<close>

datatype pyfloat = FNaN | Fl real

datatype decimal = DNaN | Dec real

text \<open>Comparisons with a NaN operand are false; arithmetic with one yields NaN.\<close>

fun float_gt :: "pyfloat \<Rightarrow> pyfloat \<Rightarrow> bool" where
  "float_gt (Fl a) (Fl b) = (a > b)"
| "float_gt _ _ = False"

fun float_lt :: "pyfloat \<Rightarrow> pyfloat \<Rightarrow> bool" where
  "float_lt (Fl a) (Fl b) = (a < b)"
| "float_lt _ _ = False"

fun float_add :: "pyfloat \<Rightarrow> pyfloat \<Rightarrow> pyfloat" where
  "float_add (Fl a) (Fl b) = Fl (a + b)"
| "float_add _ _ = FNaN"

fun float_sub :: "pyfloat \<Rightarrow> pyfloat \<Rightarrow> pyfloat" where
  "float_sub (Fl a) (Fl b) = Fl (a - b)"
| "float_sub _ _ = FNaN"

fun float_mul :: "pyfloat \<Rightarrow> pyfloat \<Rightarrow> pyfloat" where
  "float_mul (Fl a) (Fl b) = Fl (a * b)"
| "float_mul _ _ = FNaN"

text \<open>
  The builtins \<^verbatim>\<open>max(a, b)\<close> and \<^verbatim>\<open>min(a, b)\<close> keep the first argument unless the
  second compares strictly beyond it, so a NaN first argument is returned as it is.
\<close>

definition py_max :: "pyfloat \<Rightarrow> pyfloat \<Rightarrow> pyfloat" where
  "py_max a b = (if float_gt b a then b else a)"

definition py_min :: "pyfloat \<Rightarrow> pyfloat \<Rightarrow> pyfloat" where
  "py_min a b = (if float_lt b a then b else a)"

text \<open>\<^verbatim>\<open>Decimal(x)\<close> of a float, and the product of two decimals.\<close>

fun Decimal :: "pyfloat \<Rightarrow> decimal" where
  "Decimal FNaN = DNaN"
| "Decimal (Fl x) = Dec x"

fun dec_mul :: "decimal \<Rightarrow> decimal \<Rightarrow> decimal" where
  "dec_mul (Dec a) (Dec b) = Dec (a * b)"
| "dec_mul _ _ = DNaN"

subsection \<open>Rounding of the decimal context\<close>

text \<open>
  The decimal exponent of a positive number: the \<open>e\<close> with \<open>10 ^ e \<le> x < 10 ^ (e + 1)\<close>,
  counted by dividing down from a number of at least 1 and by multiplying up from a
  number below 1.
\<close>

function exp10_ge :: "real \<Rightarrow> int" where
  "exp10_ge x = (if x < 10 then 0 else exp10_ge (x / 10) + 1)"
  by auto
termination
proof (relation "measure (\<lambda>x. nat \<lceil>x\<rceil>)")
  show "wf (measure (\<lambda>x. nat \<lceil>x\<rceil>))" by simp
next
  fix x :: real
  assume "\<not> x < 10"
  then have "x / 10 \<le> x - 9" by simp
  then have "\<lceil>x / 10\<rceil> \<le> \<lceil>x - 9\<rceil>" by (rule ceiling_mono)
  then have less: "\<lceil>x / 10\<rceil> < \<lceil>x\<rceil>" by simp
  have "0 < \<lceil>x\<rceil>" using \<open>\<not> x < 10\<close> by (simp add: less_ceiling_iff)
  with less show "(x / 10, x) \<in> measure (\<lambda>x. nat \<lceil>x\<rceil>)" by simp
qed

function exp10_lt :: "real \<Rightarrow> int" where
  "exp10_lt x = (if x \<le> 0 \<or> 1 \<le> x then 0 else exp10_lt (x * 10) - 1)"
  by auto
termination
proof (relation "measure (\<lambda>x. nat \<lceil>1 / x\<rceil>)")
  show "wf (measure (\<lambda>x. nat \<lceil>1 / x\<rceil>))" by simp
next
  fix x :: real
  assume "\<not> (x \<le> 0 \<or> 1 \<le> x)"
  then have x: "0 < x" "x < 1" by auto
  define y where "y = 1 / x"
  have y: "1 < y" using x by (simp add: y_def)
  have eq: "1 / (x * 10) = y / 10" by (simp add: y_def)
  have a: "y \<le> of_int \<lceil>y\<rceil>" by (rule le_of_int_ceiling)
  have two: "2 \<le> \<lceil>y\<rceil>" using y by (simp add: le_ceiling_iff)
  then have "(of_int 2 :: real) \<le> of_int \<lceil>y\<rceil>" by (simp only: of_int_le_iff)
  then have b: "(2::real) \<le> of_int \<lceil>y\<rceil>" by simp
  have "y / 10 \<le> of_int \<lceil>y\<rceil> - 1" using a b by argo
  then have "y / 10 \<le> of_int (\<lceil>y\<rceil> - 1)" by simp
  then have "\<lceil>y / 10\<rceil> \<le> \<lceil>y\<rceil> - 1" by (rule ceiling_le)
  then have "nat \<lceil>y / 10\<rceil> < nat \<lceil>y\<rceil>" using two by simp
  then show "(x * 10, x) \<in> measure (\<lambda>x. nat \<lceil>1 / x\<rceil>)"
    unfolding in_measure eq y_def by simp
qed

declare exp10_ge.simps [simp del] exp10_lt.simps [simp del]

definition decimal_exponent :: "real \<Rightarrow> int" where
  "decimal_exponent x = (if 1 \<le> \<bar>x\<bar> then exp10_ge \<bar>x\<bar> else exp10_lt \<bar>x\<bar>)"

text \<open>The nearest integer, a tie going to the even one.\<close>

definition round_half_even :: "real \<Rightarrow> int" where
  "round_half_even y =
     (if y - of_int \<lfloor>y\<rfloor> < 1 / 2 then \<lfloor>y\<rfloor>
      else if y - of_int \<lfloor>y\<rfloor> > 1 / 2 then \<lfloor>y\<rfloor> + 1
      else if even \<lfloor>y\<rfloor> then \<lfloor>y\<rfloor> else \<lfloor>y\<rfloor> + 1)"

text \<open>A number rounded to 28 significant decimal digits.\<close>

definition round28 :: "real \<Rightarrow> real" where
  "round28 x =
     (if x = 0 then 0
      else of_int (round_half_even (x / 10 powi (decimal_exponent x - 27)))
             * 10 powi (decimal_exponent x - 27))"

text \<open>The product of two decimals as the context rounds it.\<close>

fun dec_mul_ctx :: "decimal \<Rightarrow> decimal \<Rightarrow> decimal" where
  "dec_mul_ctx (Dec a) (Dec b) = Dec (round28 (a * b))"
| "dec_mul_ctx _ _ = DNaN"

subsection \<open>Float literals of the sizing\<close>

text \<open>
  The doubles that the literals \<^verbatim>\<open>0.8\<close>, \<^verbatim>\<open>0.2\<close> and \<^verbatim>\<open>0.01\<close> denote, as
  \<^verbatim>\<open>as_integer_ratio\<close> gives them. The literal \<^verbatim>\<open>0.5\<close> is the number 1/2.
\<close>

definition double_0_8 :: real where "double_0_8 = 3602879701896397 / 2 ^ 52"
definition double_0_2 :: real where "double_0_2 = 3602879701896397 / 2 ^ 54"
definition double_0_01 :: real where "double_0_01 = 5764607523034235 / 2 ^ 59"

section \<open>Data of the framework\<close>

datatype TradeType = BUY | SELL | RANGE

datatype OrderType = MARKET | LIMIT | LIMIT_MAKER

record OrderCandidate =
  trading_pair :: string
  is_maker :: bool
  order_type :: OrderType
  order_side :: TradeType
  amount :: decimal
  price :: decimal

text \<open>An active order, as \<^verbatim>\<open>get_active_orders\<close> lists it.\<close>

record LimitOrder =
  lo_trading_pair :: string
  client_order_id :: string

text \<open>
  One row of the frame that \<^verbatim>\<open>get_candles_with_indicators\<close> returns. The volatility
  column is always assigned. The trend column is appended by the indicator library,
  which appends none to a frame shorter than its lookback: \<open>None\<close> is a row without
  that column, and reading the column from it raises KeyError.
\<close>

record indicator_row =
  RSI_14 :: "pyfloat option"
  volatility :: pyfloat

datatype py_error = IndexError | KeyError

text \<open>
  What the strategy reads from its collaborators during one tick: the clock, the
  readiness flag, the connector (active orders, mid price, balances), the candle frame
  with its indicator columns, and the budget checker.
\<close>

record tick_inputs =
  current_timestamp :: real
  ready_to_trade :: bool
  active_orders :: "LimitOrder list"
  ref_price :: real
  base_balance :: real
  quote_balance :: real
  candles_with_indicators :: "indicator_row list"
  budget_checker :: "OrderCandidate list \<Rightarrow> OrderCandidate list"

text \<open>The calls the strategy makes on the connector, in the order it makes them.\<close>

datatype connector_call =
    CancelCall string string string
  | BuyCall string string decimal OrderType decimal
  | SellCall string string decimal OrderType decimal

record strategy =
  create_timestamp :: real
  calls :: "connector_call list"

section \<open>Class attributes of SmartMarketMaker\<close>

definition base_spread :: pyfloat where "base_spread = Fl 0.001"
definition min_spread :: pyfloat where "min_spread = Fl 0.0005"
definition max_spread :: pyfloat where "max_spread = Fl 0.005"
definition order_refresh_time :: real where "order_refresh_time = 15"
definition base_order_amount :: pyfloat where "base_order_amount = Fl double_0_01"
definition the_trading_pair :: string where "the_trading_pair = ''ETH-USDT''"
definition exchange :: string where "exchange = ''binance_paper_trade''"

section \<open>The methods\<close>

definition dynamic_spread :: "pyfloat \<Rightarrow> pyfloat" where
  "dynamic_spread vol =
     py_min (py_max (float_add base_spread (float_mul vol (Fl 0.5))) min_spread) max_spread"

text \<open>The local variables of \<^verbatim>\<open>create_proposal\<close>, each as a function of what it is computed from.\<close>

definition buy_price :: "real \<Rightarrow> pyfloat \<Rightarrow> decimal" where
  "buy_price p spread = dec_mul (Dec p) (Decimal (float_sub (Fl 1) spread))"

definition sell_price :: "real \<Rightarrow> pyfloat \<Rightarrow> decimal" where
  "sell_price p spread = dec_mul (Dec p) (Decimal (float_add (Fl 1) spread))"

text \<open>
  The sizing: sum, product and quotient of the balances and the price are
  \<^verbatim>\<open>Decimal\<close> operations, each rounded by the context; the ratio is then compared with
  the doubles of the two literals.
\<close>

definition total_value :: "real \<Rightarrow> real \<Rightarrow> real \<Rightarrow> real" where
  "total_value base quote p = round28 (quote + round28 (base * p))"

definition inventory_ratio :: "real \<Rightarrow> real \<Rightarrow> real \<Rightarrow> real" where
  "inventory_ratio base quote p =
     (if total_value base quote p > 0
      then round28 (round28 (base * p) / total_value base quote p) else 0.5)"

definition order_amount :: "real \<Rightarrow> real \<Rightarrow> real \<Rightarrow> decimal" where
  "order_amount base quote p =
     (if inventory_ratio base quote p > double_0_8 \<or> inventory_ratio base quote p < double_0_2
      then dec_mul_ctx (Decimal base_order_amount) (Decimal (Fl 0.5))
      else Decimal base_order_amount)"

text \<open>\<^verbatim>\<open>candles_df.iloc[-1]\<close>: the last row, IndexError on an empty frame.\<close>

fun iloc_last :: "indicator_row list \<Rightarrow> py_error + indicator_row" where
  "iloc_last [] = Inl IndexError"
| "iloc_last [r] = Inr r"
| "iloc_last (r # rs) = iloc_last rs"

text \<open>
  \<^verbatim>\<open>create_proposal\<close> returns the proposal, or the exception that leaves it. The
  connector reads and the frame are the inputs of the tick; the log line of the
  suppressed branch has no effect on the result and is left out.
\<close>

definition create_proposal :: "tick_inputs \<Rightarrow> py_error + OrderCandidate list" where
  "create_proposal inp =
     (case iloc_last (candles_with_indicators inp) of
        Inl e \<Rightarrow> Inl e
      | Inr latest \<Rightarrow>
          (case RSI_14 latest of
             None \<Rightarrow> Inl KeyError
           | Some rsi \<Rightarrow>
               (let spread = dynamic_spread (volatility latest);
                    bp = buy_price (ref_price inp) spread;
                    sp = sell_price (ref_price inp) spread;
                    amt = order_amount (base_balance inp) (quote_balance inp) (ref_price inp)
                in if float_gt rsi (Fl 75) \<or> float_lt rsi (Fl 25) then Inr []
                   else Inr [\<lparr>trading_pair = the_trading_pair, is_maker = True,
                               order_type = LIMIT, order_side = BUY, amount = amt, price = bp\<rparr>,
                             \<lparr>trading_pair = the_trading_pair, is_maker = True,
                               order_type = LIMIT, order_side = SELL, amount = amt, price = sp\<rparr>])))"

definition adjust_proposal_to_budget :: "tick_inputs \<Rightarrow> OrderCandidate list \<Rightarrow> OrderCandidate list" where
  "adjust_proposal_to_budget inp proposal = budget_checker inp proposal"

text \<open>
  The framework's \<^verbatim>\<open>buy\<close>, \<^verbatim>\<open>sell\<close> and \<^verbatim>\<open>cancel\<close>: each hands one call to the
  connector, recorded in the order of the calls.
\<close>

definition buy :: "string \<Rightarrow> string \<Rightarrow> decimal \<Rightarrow> OrderType \<Rightarrow> decimal \<Rightarrow> strategy \<Rightarrow> strategy" where
  "buy connector_name pair amt otype prc s =
     s\<lparr>calls := calls s @ [BuyCall connector_name pair amt otype prc]\<rparr>"

definition sell :: "string \<Rightarrow> string \<Rightarrow> decimal \<Rightarrow> OrderType \<Rightarrow> decimal \<Rightarrow> strategy \<Rightarrow> strategy" where
  "sell connector_name pair amt otype prc s =
     s\<lparr>calls := calls s @ [SellCall connector_name pair amt otype prc]\<rparr>"

definition cancel :: "string \<Rightarrow> string \<Rightarrow> string \<Rightarrow> strategy \<Rightarrow> strategy" where
  "cancel connector_name pair order_id s =
     s\<lparr>calls := calls s @ [CancelCall connector_name pair order_id]\<rparr>"

definition place_order :: "string \<Rightarrow> OrderCandidate \<Rightarrow> strategy \<Rightarrow> strategy" where
  "place_order connector_name order s =
     (if order_side order = SELL
      then sell connector_name (trading_pair order) (amount order) (order_type order)
             (price order) s
      else if order_side order = BUY
      then buy connector_name (trading_pair order) (amount order) (order_type order)
             (price order) s
      else s)"

fun place_orders :: "OrderCandidate list \<Rightarrow> strategy \<Rightarrow> strategy" where
  "place_orders [] s = s"
| "place_orders (order # proposal) s = place_orders proposal (place_order exchange order s)"

text \<open>The loop of \<^verbatim>\<open>cancel_all_orders\<close> over the orders that \<^verbatim>\<open>get_active_orders\<close> lists.\<close>

fun cancel_orders :: "LimitOrder list \<Rightarrow> strategy \<Rightarrow> strategy" where
  "cancel_orders [] s = s"
| "cancel_orders (order # rest) s =
     cancel_orders rest (cancel exchange (lo_trading_pair order) (client_order_id order) s)"

definition cancel_all_orders :: "tick_inputs \<Rightarrow> strategy \<Rightarrow> strategy" where
  "cancel_all_orders inp s = cancel_orders (active_orders inp) s"

text \<open>
  \<^verbatim>\<open>on_tick\<close> returns the strategy as the tick leaves it and the exception that left
  the tick, if one did: an exception of \<^verbatim>\<open>create_proposal\<close> comes after the
  cancellations and before the timestamp is set.
\<close>

definition on_tick :: "tick_inputs \<Rightarrow> strategy \<Rightarrow> strategy \<times> py_error option" where
  "on_tick inp s =
     (if create_timestamp s \<le> current_timestamp inp \<and> ready_to_trade inp
      then (let s1 = cancel_all_orders inp s
            in case create_proposal inp of
                 Inl e \<Rightarrow> (s1, Some e)
               | Inr proposal \<Rightarrow>
                   (let proposal_adjusted = adjust_proposal_to_budget inp proposal;
                        s2 = place_orders proposal_adjusted s1
                    in (s2\<lparr>create_timestamp := current_timestamp inp + order_refresh_time\<rparr>, None)))
      else (s, None))"

section \<open>Predicates and inputs used in the statements\<close>

text \<open>A call that submits an order, as opposed to one that cancels.\<close>

fun is_submission :: "connector_call \<Rightarrow> bool" where
  "is_submission (BuyCall _ _ _ _ _) = True"
| "is_submission (SellCall _ _ _ _ _) = True"
| "is_submission (CancelCall _ _ _) = False"

text \<open>A budget checker that funds nothing.\<close>

definition reject_all :: "OrderCandidate list \<Rightarrow> OrderCandidate list" where
  "reject_all proposal = []"

definition fresh_strategy :: strategy where
  "fresh_strategy = \<lparr>create_timestamp = 0, calls = []\<rparr>"

text \<open>
  A tick at time 100 with mid price 2000, one unit of base and 2000 of quote, two resting
  orders of the strategy, and a latest row with trend 50 and volatility 0.002.
\<close>

definition calm_market :: tick_inputs where
  "calm_market =
     \<lparr>current_timestamp = 100, ready_to_trade = True,
      active_orders = [\<lparr>lo_trading_pair = ''ETH-USDT'', client_order_id = ''o1''\<rparr>,
                       \<lparr>lo_trading_pair = ''ETH-USDT'', client_order_id = ''o2''\<rparr>],
      ref_price = 2000, base_balance = 1, quote_balance = 2000,
      candles_with_indicators = [\<lparr>RSI_14 = Some (Fl 50), volatility = Fl 0.002\<rparr>],
      budget_checker = id\<rparr>"

text \<open>The same tick with a trend reading of 80.\<close>

definition strong_trend :: tick_inputs where
  "strong_trend =
     calm_market\<lparr>candles_with_indicators := [\<lparr>RSI_14 = Some (Fl 80), volatility = Fl 0.002\<rparr>]\<rparr>"

text \<open>The same tick with a budget checker that funds nothing.\<close>

definition no_budget :: tick_inputs where
  "no_budget = calm_market\<lparr>budget_checker := reject_all\<rparr>"

text \<open>
  A frame of 14 candles: the trend column is there, but no row has a reading yet (the
  14-period signal needs 15 candles); the rows from the tenth on have a volatility.
\<close>

definition short_history :: "indicator_row list" where
  "short_history =
     replicate 9 \<lparr>RSI_14 = Some FNaN, volatility = FNaN\<rparr>
     @ replicate 5 \<lparr>RSI_14 = Some FNaN, volatility = Fl 2\<rparr>"

definition short_history_inputs :: tick_inputs where
  "short_history_inputs = calm_market\<lparr>candles_with_indicators := short_history\<rparr>"

section \<open>Auxiliary facts\<close>

lemma iloc_last_snoc: "iloc_last (rows @ [r]) = Inr r"
  by (induction rows rule: iloc_last.induct) auto

lemma dynamic_spread_Fl:
  "dynamic_spread (Fl v) = Fl (min (max (0.001 + v * 0.5) 0.0005) 0.005)"
  by (simp add: dynamic_spread_def py_min_def py_max_def base_spread_def min_spread_def
      max_spread_def)

lemma dynamic_spread_FNaN: "dynamic_spread FNaN = FNaN"
  by (simp add: dynamic_spread_def py_min_def py_max_def base_spread_def min_spread_def
      max_spread_def)

text \<open>
  The rounding is the one of the context: the exponent found is the decimal exponent, and
  the rounded number is a whole multiple of \<open>10 ^ (e - 27)\<close> within half of that unit.
\<close>

lemma pow10_step: "(10::real) powi (k + 1) = 10 powi k * 10"
  by (simp add: power_int_add)

lemma exp10_ge_bounds:
  "1 \<le> x \<Longrightarrow> 10 powi exp10_ge x \<le> x \<and> x < 10 powi (exp10_ge x + 1)"
proof (induction x rule: exp10_ge.induct)
  case (1 x)
  show ?case
  proof (cases "x < 10")
    case True
    then have "exp10_ge x = 0" by (subst exp10_ge.simps) simp
    with "1.prems" True show ?thesis by simp
  next
    case False
    then have "1 \<le> x / 10" by simp
    from "1.IH" [OF False this]
    have ih: "10 powi exp10_ge (x / 10) \<le> x / 10" "x / 10 < 10 powi (exp10_ge (x / 10) + 1)"
      by simp_all
    have e: "exp10_ge x = exp10_ge (x / 10) + 1"
      using False by (subst exp10_ge.simps) simp
    from ih show ?thesis
      unfolding e pow10_step by simp
  qed
qed


lemma pow10_pred: "(10::real) powi (k - 1) = 10 powi k / 10"
  by (simp add: power_int_diff)

lemma exp10_lt_bounds:
  "0 < x \<Longrightarrow> x < 1 \<Longrightarrow> 10 powi exp10_lt x \<le> x \<and> x < 10 powi (exp10_lt x + 1)"
proof (induction x rule: exp10_lt.induct)
  case (1 x)
  have nb: "\<not> (x \<le> 0 \<or> 1 \<le> x)" using "1.prems" by simp
  have e: "exp10_lt x = exp10_lt (x * 10) - 1"
    using "1.prems" by (subst exp10_lt.simps) simp
  show ?case
  proof (cases "x * 10 < 1")
    case True
    have pos: "0 < x * 10" using "1.prems" by simp
    from "1.IH" [OF nb pos True]
    have ih: "10 powi exp10_lt (x * 10) \<le> x * 10" "x * 10 < 10 powi (exp10_lt (x * 10) + 1)"
      by simp_all
    have "10 powi (exp10_lt (x * 10) - 1) \<le> x"
      using ih(1) unfolding pow10_pred by simp
    moreover have "x < 10 powi exp10_lt (x * 10)"
      using ih(2) unfolding pow10_step by simp
    ultimately show ?thesis
      unfolding e by simp
  next
    case False
    then have z: "exp10_lt (x * 10) = 0"
      by (subst exp10_lt.simps) simp
    have "(10::real) powi (- 1) = 1 / 10" by (simp add: power_int_minus field_simps)
    with False "1.prems" show ?thesis
      unfolding e z by simp
  qed
qed


lemma decimal_exponent_bounds:
  assumes "x \<noteq> 0"
  shows "10 powi decimal_exponent x \<le> \<bar>x\<bar> \<and> \<bar>x\<bar> < 10 powi (decimal_exponent x + 1)"
proof (cases "1 \<le> \<bar>x\<bar>")
  case True
  then show ?thesis
    using exp10_ge_bounds [of "\<bar>x\<bar>"] by (simp add: decimal_exponent_def)
next
  case False
  moreover have "0 < \<bar>x\<bar>" using assms by simp
  ultimately show ?thesis
    using exp10_lt_bounds [of "\<bar>x\<bar>"] by (simp add: decimal_exponent_def)
qed

lemma round_half_even_near: "\<bar>of_int (round_half_even y) - y\<bar> \<le> 1 / 2"
proof -
  have "of_int \<lfloor>y\<rfloor> \<le> y" "y < of_int \<lfloor>y\<rfloor> + 1"
    by linarith+
  then show ?thesis
    unfolding round_half_even_def by (simp add: abs_le_iff)
qed

lemma round28_error:
  "\<bar>round28 x - x\<bar> \<le> 10 powi (decimal_exponent x - 27) / 2"
proof (cases "x = 0")
  case True
  then show ?thesis by (simp add: round28_def)
next
  case False
  define q :: real where "q = 10 powi (decimal_exponent x - 27)"
  have q: "0 < q" by (simp add: q_def)
  have "round28 x - x = (of_int (round_half_even (x / q)) - x / q) * q"
    using False q by (simp add: round28_def q_def algebra_simps)
  then have "\<bar>round28 x - x\<bar> = \<bar>of_int (round_half_even (x / q)) - x / q\<bar> * q"
    using q by (simp add: abs_mult)
  also have "\<dots> \<le> (1 / 2) * q"
    using round_half_even_near [of "x / q"] q by (intro mult_right_mono) simp_all
  finally show ?thesis by (simp add: q_def)
qed


lemma round28_values:
  "round28 2000 = 2000" "round28 4000 = 4000" "round28 (1 / 2) = 1 / 2"
  "round28 10000 = 10000" "round28 (1 / 5) = 1 / 5"
  "round28 17 = 17" "round28 20 = 20" "round28 (17 / 20) = 17 / 20"
  "round28 4 = 4" "round28 5 = 5" "round28 (4 / 5) = 4 / 5"
  by (simp_all add: round28_def decimal_exponent_def round_half_even_def
      exp10_ge.simps exp10_lt.simps)




lemma cancel_orders_eq:
  "cancel_orders os s =
     s\<lparr>calls := calls s @ map (\<lambda>x. CancelCall exchange (lo_trading_pair x) (client_order_id x)) os\<rparr>"
  by (induction os arbitrary: s) (auto simp: cancel_def)

lemma place_orders_append:
  "place_orders (xs @ ys) s = place_orders ys (place_orders xs s)"
  by (induction xs arbitrary: s) auto

lemma place_orders_snoc:
  "place_orders (xs @ [x]) s = place_order exchange x (place_orders xs s)"
  by (simp add: place_orders_append)

lemma place_order_calls:
  "\<exists>new. calls (place_order c order s) = calls s @ new \<and> (\<forall>x \<in> set new. is_submission x)"
  by (simp add: place_order_def buy_def sell_def)

lemma place_orders_calls:
  "\<exists>new. calls (place_orders proposal s) = calls s @ new \<and> (\<forall>x \<in> set new. is_submission x)"
proof (induction proposal arbitrary: s)
  case Nil
  show ?case by simp
next
  case (Cons order proposal)
  obtain n1 where n1: "calls (place_order exchange order s) = calls s @ n1"
    "\<forall>x \<in> set n1. is_submission x"
    using place_order_calls by blast
  obtain n2 where n2:
    "calls (place_orders proposal (place_order exchange order s))
       = calls (place_order exchange order s) @ n2"
    "\<forall>x \<in> set n2. is_submission x"
    using Cons.IH by blast
  have "calls (place_orders (order # proposal) s) = calls s @ (n1 @ n2)"
    using n1 n2 by simp
  moreover have "\<forall>x \<in> set (n1 @ n2). is_submission x"
    using n1 n2 by auto
  ultimately show ?case by blast
qed

lemma short_history_last:
  "iloc_last short_history = Inr \<lparr>RSI_14 = Some FNaN, volatility = Fl 2\<rparr>"
  by (simp add: short_history_def eval_nat_numeral)

lemma calm_market_amount: "order_amount 1 2000 2000 = Decimal base_order_amount"
  by (simp add: order_amount_def inventory_ratio_def total_value_def round28_values
      double_0_8_def double_0_2_def)

lemma calm_market_proposal:
  "create_proposal calm_market =
     Inr [\<lparr>trading_pair = ''ETH-USDT'', is_maker = True, order_type = LIMIT,
           order_side = BUY, amount = Decimal base_order_amount, price = Dec 1996\<rparr>,
          \<lparr>trading_pair = ''ETH-USDT'', is_maker = True, order_type = LIMIT,
           order_side = SELL, amount = Decimal base_order_amount, price = Dec 2004\<rparr>]"
  by (simp add: calm_market_def create_proposal_def Let_def dynamic_spread_Fl buy_price_def
      sell_price_def calm_market_amount the_trading_pair_def)

section \<open>History too short for the trend signal\<close>

text \<open>
  C1, as stated, fails: with a frame of 14 candles the latest row has no trend reading
  (NaN), both comparisons of the trend filter are false, and \<^verbatim>\<open>create_proposal\<close>
  returns the two orders.
\<close>

theorem short_history_counterexample:
  "length (candles_with_indicators short_history_inputs) < 15
   \<and> create_proposal short_history_inputs \<noteq> Inr []"
  by (simp add: short_history_inputs_def calm_market_def create_proposal_def
      short_history_last Let_def)
    (simp add: short_history_def)

text \<open>
  C1, amended. \<^verbatim>\<open>create_proposal\<close> has no readiness check. When the latest row has a
  NaN trend reading, it returns the BUY order and the SELL order, priced from the
  volatility of that row; a NaN volatility gives a NaN spread and NaN prices. The
  empty proposal is returned only when the latest trend reading is a number above 75 or
  below 25.
\<close>

theorem create_proposal_nan_trend:
  "create_proposal (inp\<lparr>candles_with_indicators := rows @ [\<lparr>RSI_14 = Some FNaN, volatility = vol\<rparr>]\<rparr>)
     = Inr [\<lparr>trading_pair = the_trading_pair, is_maker = True, order_type = LIMIT,
             order_side = BUY,
             amount = order_amount (base_balance inp) (quote_balance inp) (ref_price inp),
             price = buy_price (ref_price inp) (dynamic_spread vol)\<rparr>,
            \<lparr>trading_pair = the_trading_pair, is_maker = True, order_type = LIMIT,
             order_side = SELL,
             amount = order_amount (base_balance inp) (quote_balance inp) (ref_price inp),
             price = sell_price (ref_price inp) (dynamic_spread vol)\<rparr>]
   \<and> buy_price p (dynamic_spread FNaN) = DNaN
   \<and> sell_price p (dynamic_spread FNaN) = DNaN
   \<and> (create_proposal inp = Inr [] \<longrightarrow>
        (\<exists>latest t. iloc_last (candles_with_indicators inp) = Inr latest
            \<and> RSI_14 latest = Some (Fl t) \<and> (t > 75 \<or> t < 25)))"
proof (intro conjI impI)
  show "create_proposal (inp\<lparr>candles_with_indicators := rows @ [\<lparr>RSI_14 = Some FNaN, volatility = vol\<rparr>]\<rparr>)
     = Inr [\<lparr>trading_pair = the_trading_pair, is_maker = True, order_type = LIMIT,
             order_side = BUY,
             amount = order_amount (base_balance inp) (quote_balance inp) (ref_price inp),
             price = buy_price (ref_price inp) (dynamic_spread vol)\<rparr>,
            \<lparr>trading_pair = the_trading_pair, is_maker = True, order_type = LIMIT,
             order_side = SELL,
             amount = order_amount (base_balance inp) (quote_balance inp) (ref_price inp),
             price = sell_price (ref_price inp) (dynamic_spread vol)\<rparr>]"
    by (simp add: create_proposal_def iloc_last_snoc Let_def)
  show "buy_price p (dynamic_spread FNaN) = DNaN"
    by (simp add: dynamic_spread_FNaN buy_price_def)
  show "sell_price p (dynamic_spread FNaN) = DNaN"
    by (simp add: dynamic_spread_FNaN sell_price_def)
next
  assume empty: "create_proposal inp = Inr []"
  then obtain latest where latest: "iloc_last (candles_with_indicators inp) = Inr latest"
    by (auto simp: create_proposal_def split: sum.splits)
  with empty obtain rsi where rsi: "RSI_14 latest = Some rsi"
    by (auto simp: create_proposal_def split: option.splits)
  with empty latest have "float_gt rsi (Fl 75) \<or> float_lt rsi (Fl 25)"
    by (auto simp: create_proposal_def Let_def split: if_splits)
  then obtain t where "rsi = Fl t" "t > 75 \<or> t < 25"
    by (cases rsi) auto
  with rsi have "RSI_14 latest = Some (Fl t)" "t > 75 \<or> t < 25"
    by simp_all
  with latest show "\<exists>latest t. iloc_last (candles_with_indicators inp) = Inr latest
            \<and> RSI_14 latest = Some (Fl t) \<and> (t > 75 \<or> t < 25)"
    by blast
qed

theorem create_proposal_nan_trend_witness:
  "create_proposal strong_trend = Inr []
   \<and> (\<exists>latest t. iloc_last (candles_with_indicators strong_trend) = Inr latest
          \<and> RSI_14 latest = Some (Fl t) \<and> (t > 75 \<or> t < 25))"
proof -
  have empty: "create_proposal strong_trend = Inr []"
    by (simp add: strong_trend_def calm_market_def create_proposal_def Let_def)
  with create_proposal_nan_trend [where inp = strong_trend] show ?thesis
    by blast
qed

section \<open>Trend filter\<close>

text \<open>
  C2. With the trend signal \<open>t\<close> in the latest row of the frame, \<^verbatim>\<open>create_proposal\<close>
  returns the empty list exactly when \<open>t > 75\<close> or \<open>t < 25\<close>, whatever the price, the
  balances and the volatility are. At 25 and at 75 the proposal is not empty; at 80 it is.
  A reading that is not a number compares false with both thresholds and is not
  suppressed either.
\<close>

theorem trend_filter_suppresses_iff:
  "(create_proposal (inp\<lparr>candles_with_indicators := rows @ [\<lparr>RSI_14 = Some (Fl t), volatility = vol\<rparr>]\<rparr>)
      = Inr [] \<longleftrightarrow> t > 75 \<or> t < 25)
   \<and> create_proposal (inp\<lparr>candles_with_indicators := rows @ [\<lparr>RSI_14 = Some (Fl 25), volatility = vol\<rparr>]\<rparr>)
      \<noteq> Inr []
   \<and> create_proposal (inp\<lparr>candles_with_indicators := rows @ [\<lparr>RSI_14 = Some (Fl 75), volatility = vol\<rparr>]\<rparr>)
      \<noteq> Inr []
   \<and> create_proposal (inp\<lparr>candles_with_indicators := rows @ [\<lparr>RSI_14 = Some (Fl 80), volatility = vol\<rparr>]\<rparr>)
      = Inr []
   \<and> create_proposal (inp\<lparr>candles_with_indicators := rows @ [\<lparr>RSI_14 = Some FNaN, volatility = vol\<rparr>]\<rparr>)
      \<noteq> Inr []"
  by (simp add: create_proposal_def iloc_last_snoc Let_def)

section \<open>Spread model\<close>

text \<open>
  C3. For a volatility reading \<open>v\<close> that is a number, \<^verbatim>\<open>dynamic_spread\<close> is the clamp of
  \<open>0.001 + v * 0.5\<close> to the interval from 0.0005 to 0.005, its value lies in that closed
  interval, and at volatility 0 it is 0.001. The bounds hold for every number \<open>v\<close>, so
  in particular for every \<open>v \<ge> 0\<close>.
\<close>

theorem dynamic_spread_clamped:
  "dynamic_spread (Fl v) = Fl (min (max (0.001 + v * 0.5) 0.0005) 0.005)
   \<and> (\<exists>h. dynamic_spread (Fl v) = Fl h \<and> 0.0005 \<le> h \<and> h \<le> 0.005)
   \<and> dynamic_spread (Fl 0) = Fl 0.001"
  by (auto simp: dynamic_spread_Fl min_def max_def)

section \<open>Quote prices\<close>

text \<open>
  C4. A proposal that \<^verbatim>\<open>create_proposal\<close> returns is empty or has two orders. A
  non-empty one is the BUY order followed by the SELL order, both for the strategy's
  pair and with the same amount, priced by \<^verbatim>\<open>buy_price\<close> and \<^verbatim>\<open>sell_price\<close> at the
  reference price and the spread of the latest row. For a reference price \<open>p > 0\<close> and
  a spread \<open>h\<close> strictly between 0 and 1 these prices are \<open>p * (1 - h)\<close> and
  \<open>p * (1 + h)\<close>, the first below \<open>p\<close> and the second above, with quotient
  \<open>(1 + h) / (1 - h)\<close>.
\<close>

theorem create_proposal_quotes:
  assumes "create_proposal inp = Inr props"
  shows "(props = [] \<or> length props = 2)
   \<and> (props \<noteq> [] \<longrightarrow>
        (\<exists>latest. iloc_last (candles_with_indicators inp) = Inr latest
           \<and> props =
             [\<lparr>trading_pair = the_trading_pair, is_maker = True, order_type = LIMIT,
               order_side = BUY,
               amount = order_amount (base_balance inp) (quote_balance inp) (ref_price inp),
               price = buy_price (ref_price inp) (dynamic_spread (volatility latest))\<rparr>,
              \<lparr>trading_pair = the_trading_pair, is_maker = True, order_type = LIMIT,
               order_side = SELL,
               amount = order_amount (base_balance inp) (quote_balance inp) (ref_price inp),
               price = sell_price (ref_price inp) (dynamic_spread (volatility latest))\<rparr>]))
   \<and> (\<forall>p h. 0 < p \<and> 0 < h \<and> h < 1 \<longrightarrow>
         buy_price p (Fl h) = Dec (p * (1 - h)) \<and> sell_price p (Fl h) = Dec (p * (1 + h))
         \<and> p * (1 - h) < p \<and> p < p * (1 + h)
         \<and> (p * (1 + h)) / (p * (1 - h)) = (1 + h) / (1 - h))"
  using assms
  by (auto simp: create_proposal_def Let_def buy_price_def sell_price_def
      split: sum.splits option.splits if_splits)

theorem create_proposal_quotes_witness:
  "create_proposal calm_market =
     Inr [\<lparr>trading_pair = ''ETH-USDT'', is_maker = True, order_type = LIMIT,
           order_side = BUY, amount = Decimal base_order_amount, price = Dec 1996\<rparr>,
          \<lparr>trading_pair = ''ETH-USDT'', is_maker = True, order_type = LIMIT,
           order_side = SELL, amount = Decimal base_order_amount, price = Dec 2004\<rparr>]
   \<and> dynamic_spread (Fl 0.002) = Fl 0.002
   \<and> buy_price 2000 (Fl 0.002) = Dec 1996 \<and> sell_price 2000 (Fl 0.002) = Dec 2004
   \<and> (2004 :: real) / 1996 = (1 + 0.002) / (1 - 0.002)"
proof -
  have "\<forall>p h :: real. 0 < p \<and> 0 < h \<and> h < 1 \<longrightarrow>
         buy_price p (Fl h) = Dec (p * (1 - h)) \<and> sell_price p (Fl h) = Dec (p * (1 + h))
         \<and> p * (1 - h) < p \<and> p < p * (1 + h)
         \<and> (p * (1 + h)) / (p * (1 - h)) = (1 + h) / (1 - h)"
    using create_proposal_quotes [OF calm_market_proposal] by blast
  then have "buy_price 2000 (Fl 0.002) = Dec (2000 * (1 - 0.002))
       \<and> sell_price 2000 (Fl 0.002) = Dec (2000 * (1 + 0.002))
       \<and> ((2000 :: real) * (1 + 0.002)) / (2000 * (1 - 0.002)) = (1 + 0.002) / (1 - 0.002)"
    by simp
  then show ?thesis
    using calm_market_proposal by (simp add: dynamic_spread_Fl)
qed

section \<open>Inventory sizing\<close>




section \<open>Tick scheduler\<close>

text \<open>
  C6. A tick that arrives before \<^verbatim>\<open>create_timestamp\<close>, or while the strategy is not
  ready to trade, changes nothing: no call reaches the connector, the timestamp stays,
  and no exception leaves the tick.
\<close>

theorem on_tick_not_due_noop:
  "current_timestamp inp < create_timestamp s \<or> \<not> ready_to_trade inp
     \<Longrightarrow> on_tick inp s = (s, None)"
  by (auto simp: on_tick_def)

theorem on_tick_not_due_noop_witness:
  "current_timestamp calm_market < create_timestamp (fresh_strategy\<lparr>create_timestamp := 115\<rparr>)
   \<and> on_tick calm_market (fresh_strategy\<lparr>create_timestamp := 115\<rparr>)
       = (fresh_strategy\<lparr>create_timestamp := 115\<rparr>, None)"
  using on_tick_not_due_noop [of calm_market "fresh_strategy\<lparr>create_timestamp := 115\<rparr>"]
  by (simp add: calm_market_def fresh_strategy_def)

text \<open>
  C7. On a due, ready tick on which the budget checker returns the empty list for the
  proposal of \<^verbatim>\<open>create_proposal\<close>, the calls of the tick are the cancellations of the
  active orders and nothing else, and \<^verbatim>\<open>create_timestamp\<close> becomes the current time
  plus 15. A suppressed proposal is the case where the proposal is already empty and the
  checker returns nothing for it.
\<close>

theorem on_tick_empty_budget:
  assumes "create_timestamp s \<le> current_timestamp inp" and "ready_to_trade inp"
    and "create_proposal inp = Inr proposal"
    and "budget_checker inp proposal = []"
  shows "on_tick inp s =
           (s\<lparr>calls := calls s @ map (\<lambda>x. CancelCall exchange (lo_trading_pair x)
                                               (client_order_id x)) (active_orders inp),
              create_timestamp := current_timestamp inp + 15\<rparr>, None)"
  using assms
  by (simp add: on_tick_def cancel_all_orders_def cancel_orders_eq
      adjust_proposal_to_budget_def order_refresh_time_def Let_def)

theorem on_tick_empty_budget_witness:
  "create_timestamp fresh_strategy \<le> current_timestamp no_budget
   \<and> ready_to_trade no_budget
   \<and> (\<exists>proposal. create_proposal no_budget = Inr proposal \<and> length proposal = 2
         \<and> budget_checker no_budget proposal = [])
   \<and> on_tick no_budget fresh_strategy =
       (\<lparr>create_timestamp = 115,
         calls = [CancelCall ''binance_paper_trade'' ''ETH-USDT'' ''o1'',
                  CancelCall ''binance_paper_trade'' ''ETH-USDT'' ''o2'']\<rparr>, None)"
proof -
  have same: "create_proposal no_budget = create_proposal calm_market"
    by (simp add: no_budget_def calm_market_def create_proposal_def Let_def)
  note run = same [unfolded calm_market_proposal]
  have due: "create_timestamp fresh_strategy \<le> current_timestamp no_budget"
    by (simp add: no_budget_def calm_market_def fresh_strategy_def)
  have ready: "ready_to_trade no_budget"
    by (simp add: no_budget_def calm_market_def)
  have budget: "budget_checker no_budget
       [\<lparr>trading_pair = ''ETH-USDT'', is_maker = True, order_type = LIMIT,
           order_side = BUY, amount = Decimal base_order_amount, price = Dec 1996\<rparr>,
          \<lparr>trading_pair = ''ETH-USDT'', is_maker = True, order_type = LIMIT,
           order_side = SELL, amount = Decimal base_order_amount, price = Dec 2004\<rparr>] = []"
    by (simp add: no_budget_def reject_all_def)
  have "on_tick no_budget fresh_strategy =
       (\<lparr>create_timestamp = 115,
         calls = [CancelCall ''binance_paper_trade'' ''ETH-USDT'' ''o1'',
                  CancelCall ''binance_paper_trade'' ''ETH-USDT'' ''o2'']\<rparr>, None)"
    using on_tick_empty_budget [OF due ready run budget]
    by (simp add: no_budget_def calm_market_def fresh_strategy_def exchange_def)
  with due ready run budget show ?thesis
    by simp
qed

section \<open>Cancellation\<close>

text \<open>
  The calls of a due, ready tick: first one cancellation for each order that the
  connector lists, by the pair and the identifier of that order, then submissions only.
  The cancellations have been made also when \<^verbatim>\<open>create_proposal\<close> raises.
\<close>

lemma on_tick_calls:
  assumes "create_timestamp s \<le> current_timestamp inp" and "ready_to_trade inp"
  shows "\<exists>subs. calls (fst (on_tick inp s))
            = calls s @ map (\<lambda>x. CancelCall exchange (lo_trading_pair x) (client_order_id x))
                          (active_orders inp) @ subs
          \<and> (\<forall>c \<in> set subs. is_submission c)"
proof (cases "create_proposal inp")
  case (Inl e)
  then show ?thesis using assms
    by (simp add: on_tick_def cancel_all_orders_def cancel_orders_eq Let_def)
next
  case (Inr proposal)
  obtain new where new:
    "calls (place_orders (budget_checker inp proposal) (cancel_all_orders inp s))
       = calls (cancel_all_orders inp s) @ new"
    "\<forall>x \<in> set new. is_submission x"
    using place_orders_calls by blast
  then show ?thesis using assms Inr
    by (simp add: on_tick_def cancel_all_orders_def cancel_orders_eq Let_def
        adjust_proposal_to_budget_def)
qed

text \<open>
  C8. The active orders that the connector lists to the strategy are its own orders, all
  of its one trading pair. On a due, ready tick each of them is cancelled by its
  identifier, in the order listed; these cancellations are the first calls of the tick,
  every cancellation of the tick is one of them, so it is for the strategy's pair and for
  a listed order, and every later call is a submission: cancellation comes before the
  proposal is submitted.
\<close>

theorem on_tick_cancels_pair_orders:
  assumes "create_timestamp s \<le> current_timestamp inp" and "ready_to_trade inp"
    and "\<forall>x \<in> set (active_orders inp). lo_trading_pair x = the_trading_pair"
  shows "\<exists>subs. calls (fst (on_tick inp s))
            = calls s @ map (\<lambda>x. CancelCall exchange the_trading_pair (client_order_id x))
                          (active_orders inp) @ subs
          \<and> (\<forall>c \<in> set subs. is_submission c)"
proof -
  have "map (\<lambda>x. CancelCall exchange (lo_trading_pair x) (client_order_id x)) (active_orders inp)
      = map (\<lambda>x. CancelCall exchange the_trading_pair (client_order_id x)) (active_orders inp)"
    using assms(3) by simp
  with on_tick_calls [OF assms(1) assms(2)] show ?thesis
    by simp
qed

theorem on_tick_cancels_pair_orders_witness:
  "create_timestamp fresh_strategy \<le> current_timestamp calm_market
   \<and> ready_to_trade calm_market
   \<and> map lo_trading_pair (active_orders calm_market) = [the_trading_pair, the_trading_pair]
   \<and> (\<exists>subs. calls (fst (on_tick calm_market fresh_strategy))
          = CancelCall ''binance_paper_trade'' ''ETH-USDT'' ''o1''
            # CancelCall ''binance_paper_trade'' ''ETH-USDT'' ''o2'' # subs
        \<and> (\<forall>c \<in> set subs. is_submission c))"
proof -
  have due: "create_timestamp fresh_strategy \<le> current_timestamp calm_market"
    by (simp add: calm_market_def fresh_strategy_def)
  have ready: "ready_to_trade calm_market"
    by (simp add: calm_market_def)
  have own: "\<forall>x \<in> set (active_orders calm_market). lo_trading_pair x = the_trading_pair"
    by (simp add: calm_market_def the_trading_pair_def)
  from on_tick_cancels_pair_orders [OF due ready own]
  have "\<exists>subs. calls (fst (on_tick calm_market fresh_strategy))
          = CancelCall ''binance_paper_trade'' ''ETH-USDT'' ''o1''
            # CancelCall ''binance_paper_trade'' ''ETH-USDT'' ''o2'' # subs
        \<and> (\<forall>c \<in> set subs. is_submission c)"
    by (simp add: calm_market_def fresh_strategy_def exchange_def the_trading_pair_def)
  moreover have "map lo_trading_pair (active_orders calm_market)
      = [the_trading_pair, the_trading_pair]"
    by (simp add: calm_market_def the_trading_pair_def)
  ultimately show ?thesis using due ready by simp
qed

section \<open>Submission\<close>

text \<open>
  C9. For a proposal of BUY and SELL orders, \<^verbatim>\<open>place_orders\<close> adds one call for each
  order, in the order of the proposal: a buy call for a BUY order and a sell call for a
  SELL order, on the strategy's exchange, with the pair, amount, order type and price of
  that order.
\<close>

theorem place_orders_preserves_intents:
  assumes "\<forall>x \<in> set proposal. order_side x = BUY \<or> order_side x = SELL"
  shows "\<exists>new. calls (place_orders proposal s) = calls s @ new
           \<and> length new = length proposal
           \<and> (\<forall>i < length proposal.
                 (order_side (proposal ! i) = BUY \<longrightarrow>
                    new ! i = BuyCall exchange (trading_pair (proposal ! i))
                                (amount (proposal ! i)) (order_type (proposal ! i))
                                (price (proposal ! i)))
               \<and> (order_side (proposal ! i) = SELL \<longrightarrow>
                    new ! i = SellCall exchange (trading_pair (proposal ! i))
                                (amount (proposal ! i)) (order_type (proposal ! i))
                                (price (proposal ! i))))"
  using assms
proof (induction proposal rule: rev_induct)
  case Nil
  show ?case by simp
next
  case (snoc x xs)
  then obtain new where new: "calls (place_orders xs s) = calls s @ new"
    "length new = length xs"
    "\<forall>i < length xs.
       (order_side (xs ! i) = BUY \<longrightarrow>
          new ! i = BuyCall exchange (trading_pair (xs ! i)) (amount (xs ! i))
                      (order_type (xs ! i)) (price (xs ! i)))
     \<and> (order_side (xs ! i) = SELL \<longrightarrow>
          new ! i = SellCall exchange (trading_pair (xs ! i)) (amount (xs ! i))
                      (order_type (xs ! i)) (price (xs ! i)))"
    by auto
  have side: "order_side x = BUY \<or> order_side x = SELL"
    using snoc.prems by simp
  define c where "c = (if order_side x = SELL
      then SellCall exchange (trading_pair x) (amount x) (order_type x) (price x)
      else BuyCall exchange (trading_pair x) (amount x) (order_type x) (price x))"
  have step: "calls (place_orders (xs @ [x]) s) = calls s @ (new @ [c])"
    using side new(1) by (auto simp: place_orders_snoc place_order_def buy_def sell_def c_def)
  have len: "length (new @ [c]) = length (xs @ [x])"
    using new(2) by simp
  have "\<forall>i < length (xs @ [x]).
       (order_side ((xs @ [x]) ! i) = BUY \<longrightarrow>
          (new @ [c]) ! i = BuyCall exchange (trading_pair ((xs @ [x]) ! i))
             (amount ((xs @ [x]) ! i)) (order_type ((xs @ [x]) ! i)) (price ((xs @ [x]) ! i)))
     \<and> (order_side ((xs @ [x]) ! i) = SELL \<longrightarrow>
          (new @ [c]) ! i = SellCall exchange (trading_pair ((xs @ [x]) ! i))
             (amount ((xs @ [x]) ! i)) (order_type ((xs @ [x]) ! i)) (price ((xs @ [x]) ! i)))"
  proof (intro allI impI)
    fix i assume i: "i < length (xs @ [x])"
    show "(order_side ((xs @ [x]) ! i) = BUY \<longrightarrow>
          (new @ [c]) ! i = BuyCall exchange (trading_pair ((xs @ [x]) ! i))
             (amount ((xs @ [x]) ! i)) (order_type ((xs @ [x]) ! i)) (price ((xs @ [x]) ! i)))
     \<and> (order_side ((xs @ [x]) ! i) = SELL \<longrightarrow>
          (new @ [c]) ! i = SellCall exchange (trading_pair ((xs @ [x]) ! i))
             (amount ((xs @ [x]) ! i)) (order_type ((xs @ [x]) ! i)) (price ((xs @ [x]) ! i)))"
    proof (cases "i < length xs")
      case True
      then show ?thesis using new(2) new(3) by (simp add: nth_append)
    next
      case False
      then have "i = length xs" using i by simp
      then show ?thesis using new(2) by (auto simp: nth_append c_def)
    qed
  qed
  with step len show ?case by blast
qed

theorem place_orders_preserves_intents_witness:
  "calls (place_orders
       [\<lparr>trading_pair = ''ETH-USDT'', is_maker = True, order_type = LIMIT,
          order_side = BUY, amount = Dec 0.01, price = Dec 1996\<rparr>,
        \<lparr>trading_pair = ''ETH-USDT'', is_maker = True, order_type = LIMIT,
          order_side = SELL, amount = Dec 0.01, price = Dec 2004\<rparr>] fresh_strategy)
     = [BuyCall ''binance_paper_trade'' ''ETH-USDT'' (Dec 0.01) LIMIT (Dec 1996),
        SellCall ''binance_paper_trade'' ''ETH-USDT'' (Dec 0.01) LIMIT (Dec 2004)]"
proof -
  let ?b = "\<lparr>trading_pair = ''ETH-USDT'', is_maker = True, order_type = LIMIT,
          order_side = BUY, amount = Dec 0.01, price = Dec 1996\<rparr>"
  let ?s = "\<lparr>trading_pair = ''ETH-USDT'', is_maker = True, order_type = LIMIT,
          order_side = SELL, amount = Dec 0.01, price = Dec 2004\<rparr>"
  have sides: "\<forall>x \<in> set [?b, ?s]. order_side x = BUY \<or> order_side x = SELL"
    by simp
  from place_orders_preserves_intents [OF sides, of fresh_strategy]
  obtain new where new: "calls (place_orders [?b, ?s] fresh_strategy) = calls fresh_strategy @ new"
    "length new = 2"
    "\<forall>i < 2. (order_side ([?b, ?s] ! i) = BUY \<longrightarrow>
                    new ! i = BuyCall exchange (trading_pair ([?b, ?s] ! i))
                                (amount ([?b, ?s] ! i)) (order_type ([?b, ?s] ! i))
                                (price ([?b, ?s] ! i)))
               \<and> (order_side ([?b, ?s] ! i) = SELL \<longrightarrow>
                    new ! i = SellCall exchange (trading_pair ([?b, ?s] ! i))
                                (amount ([?b, ?s] ! i)) (order_type ([?b, ?s] ! i))
                                (price ([?b, ?s] ! i)))"
    by auto
  from new(3) [rule_format, of 0]
  have "new ! 0 = BuyCall exchange ''ETH-USDT'' (Dec 0.01) LIMIT (Dec 1996)"
    by simp
  moreover from new(3) [rule_format, of 1]
  have "new ! 1 = SellCall exchange ''ETH-USDT'' (Dec 0.01) LIMIT (Dec 2004)"
    by simp
  moreover from new(2) obtain a b where "new = [a, b]"
    by (auto simp: length_Suc_conv numeral_2_eq_2)
  ultimately have "new = [BuyCall exchange ''ETH-USDT'' (Dec 0.01) LIMIT (Dec 1996),
       SellCall exchange ''ETH-USDT'' (Dec 0.01) LIMIT (Dec 2004)]"
    by simp
  with new(1) show ?thesis
    by (simp add: fresh_strategy_def exchange_def)
qed

text \<open>
  C10. An order whose side is neither BUY nor SELL leaves the strategy as it is:
  \<^verbatim>\<open>place_order\<close> makes no call for it and has no error branch. So \<^verbatim>\<open>place_orders\<close>
  does for a proposal what it does for the BUY and SELL orders of that proposal alone.
\<close>

theorem place_order_other_side_noop:
  "(order_side order \<noteq> BUY \<and> order_side order \<noteq> SELL \<longrightarrow> place_order c order s = s)
   \<and> place_orders proposal s
       = place_orders (filter (\<lambda>x. order_side x = BUY \<or> order_side x = SELL) proposal) s"
proof
  show "order_side order \<noteq> BUY \<and> order_side order \<noteq> SELL \<longrightarrow> place_order c order s = s"
    by (simp add: place_order_def)
  show "place_orders proposal s
       = place_orders (filter (\<lambda>x. order_side x = BUY \<or> order_side x = SELL) proposal) s"
    by (induction proposal arbitrary: s) (auto simp: place_order_def)
qed

theorem place_order_other_side_noop_witness:
  "order_side \<lparr>trading_pair = ''ETH-USDT'', is_maker = True, order_type = LIMIT,
               order_side = RANGE, amount = Dec 0.01, price = Dec 2000\<rparr> \<noteq> BUY
   \<and> order_side \<lparr>trading_pair = ''ETH-USDT'', is_maker = True, order_type = LIMIT,
               order_side = RANGE, amount = Dec 0.01, price = Dec 2000\<rparr> \<noteq> SELL
   \<and> place_order exchange
        \<lparr>trading_pair = ''ETH-USDT'', is_maker = True, order_type = LIMIT,
          order_side = RANGE, amount = Dec 0.01, price = Dec 2000\<rparr> fresh_strategy
      = fresh_strategy"
  using place_order_other_side_noop
    [of "\<lparr>trading_pair = ''ETH-USDT'', is_maker = True, order_type = LIMIT,
          order_side = RANGE, amount = Dec 0.01, price = Dec 2000\<rparr>" exchange fresh_strategy]
  by simp

end
